theory Spec2Isabelle
  imports Complex_Main "HOL-Library.Log_Nat"
begin

section \<open>Text and the character classes of Python's \<^verbatim>\<open>string\<close> module\<close>

text \<open>
  A Python \<^verbatim>\<open>str\<close> is a sequence of Unicode code points, and \<^verbatim>\<open>for char in text\<close>
  visits one code point at a time. A character is therefore modelled by its code point
  (a natural number) and a text by the list of its code points; \<open>length\<close> then counts
  what Python's \<^verbatim>\<open>len\<close> counts.
\<close>

type_synonym pychar = nat

type_synonym pystr = "pychar list"

definition py_str :: "string \<Rightarrow> pystr" where
  "py_str s = map of_char s"

text \<open>\<^verbatim>\<open>string.ascii_lowercase\<close>, \<^verbatim>\<open>string.ascii_uppercase\<close>, \<^verbatim>\<open>string.ascii_letters\<close>
  and \<^verbatim>\<open>string.digits\<close>, in the order the library lists them.\<close>

definition ascii_lowercase :: pystr where
  "ascii_lowercase = py_str ''abcdefghijklmnopqrstuvwxyz''"

definition ascii_uppercase :: pystr where
  "ascii_uppercase = py_str ''ABCDEFGHIJKLMNOPQRSTUVWXYZ''"

definition ascii_letters :: pystr where
  "ascii_letters = ascii_lowercase @ ascii_uppercase"

definition digits :: pystr where
  "digits = py_str ''0123456789''"

text \<open>
  \<^verbatim>\<open>string.punctuation\<close> is the 32 ASCII characters
  \<^verbatim>\<open>!"#$%&'()*+,-./\<close> (33 to 47), \<^verbatim>\<open>:;<=>?@\<close> (58 to 64),
  \<^verbatim>\<open>[\]^_`\<close> (91 to 96) and \<^verbatim>\<open>{|}~\<close> (123 to 126), in code point order.
\<close>

definition punctuation :: pystr where
  "punctuation = [33..<48] @ [58..<65] @ [91..<97] @ [123..<127]"

text \<open>The sequence both calls of \<^verbatim>\<open>random.choice\<close> draw from:
  \<^verbatim>\<open>string.ascii_letters + string.digits\<close>.\<close>

definition alphanumerics :: pystr where
  "alphanumerics = ascii_letters @ digits"

section \<open>The random number generator\<close>

text \<open>
  The functions of Python's \<^verbatim>\<open>random\<close> module share one hidden generator. It is made
  explicit as a state: an unbounded sequence of raw outputs and the number of outputs
  consumed so far. Every call consumes the next raw output and returns the new state.

  \<^verbatim>\<open>random.random()\<close> returns \<open>k / 2^53\<close> for a 53-bit \<open>k\<close>, a value in \<open>[0, 1)\<close>.
  \<^verbatim>\<open>random.choice(seq)\<close> returns \<open>seq[k]\<close> for an index \<open>k\<close> below \<open>len(seq)\<close>; it
  raises \<^verbatim>\<open>IndexError\<close> on an empty sequence only, and the program calls it on the
  62 characters of \<open>alphanumerics\<close> only.
  Since the raw outputs are arbitrary, every sequence of results that the library can
  produce is the behaviour of some generator state of the model.
\<close>

record rng =
  raw :: "nat \<Rightarrow> nat"
  pos :: nat

definition random_random :: "rng \<Rightarrow> real \<times> rng" where
  "random_random g =
     (real (raw g (pos g) mod 2 ^ 53) / 2 ^ 53, g\<lparr>pos := Suc (pos g)\<rparr>)"

definition random_choice :: "'a list \<Rightarrow> rng \<Rightarrow> 'a \<times> rng" where
  "random_choice seq g =
     (seq ! (raw g (pos g) mod length seq), g\<lparr>pos := Suc (pos g)\<rparr>)"

section \<open>Floating-point addition\<close>

text \<open>
  The frequencies and the draws are Python floats: IEEE 754 double-precision numbers. A
  finite double is represented by the real number it denotes. The order on doubles is
  the order on these reals, so the comparisons of the program are exact; its additions
  are not: \<^verbatim>\<open>a + b\<close> is the double nearest to the exact sum, with ties going to the
  double whose last significand bit is 0.

  \<open>exponent x\<close> is the \<open>e\<close> with \<open>2^e \<le> |x| < 2^(e+1)\<close>, computed from the number of
  bits of the integer part of \<open>|x|\<close> or of \<open>1/|x|\<close>. Around \<open>x\<close> the doubles are the
  multiples of \<open>quantum x\<close>: 53 significant bits, and steps of \<open>2^-1074\<close> below the
  smallest normal number \<open>2^-1022\<close>. Infinities and NaN have no representation here:
  \<^verbatim>\<open>validate_args\<close> refuses them, and the sums of frequencies it accepts are far from
  overflow.

  The values the program holds are doubles. A frequency written \<^verbatim>\<open>0.1\<close> on the command
  line reaches the program as the double nearest to \<open>1/10\<close>, which is
  \<open>3602879701896397 / 2^55\<close>, not as \<open>1/10\<close>; the sample inputs below name the doubles
  they use.
\<close>

definition exponent :: "real \<Rightarrow> int" where
  "exponent x =
     (if 1 \<le> \<bar>x\<bar> then bitlen \<lfloor>\<bar>x\<bar>\<rfloor> - 1 else - bitlen (\<lceil>1 / \<bar>x\<bar>\<rceil> - 1))"

definition quantum :: "real \<Rightarrow> real" where
  "quantum x = 2 powi (max (exponent x) (- 1022) - 52)"

definition round_even :: "real \<Rightarrow> int" where
  "round_even q =
     (if q - of_int \<lfloor>q\<rfloor> < 1 / 2 then \<lfloor>q\<rfloor>
      else if 1 / 2 < q - of_int \<lfloor>q\<rfloor> then \<lfloor>q\<rfloor> + 1
      else if even \<lfloor>q\<rfloor> then \<lfloor>q\<rfloor> else \<lfloor>q\<rfloor> + 1)"

definition round_double :: "real \<Rightarrow> real" where
  "round_double x = (if x = 0 then 0 else of_int (round_even (x / quantum x)) * quantum x)"

definition float_add :: "real \<Rightarrow> real \<Rightarrow> real" where
  "float_add x y = round_double (x + y)"

section \<open>The fuzzer\<close>

text \<open>
  The body of the \<^verbatim>\<open>for\<close> loop of \<^verbatim>\<open>fuzz_text\<close>: it takes the current character
  and the loop's state (the text built so far and the generator) and returns the state
  after the iteration. The two sums of frequencies are floating-point sums, taken from
  left to right as Python evaluates \<^verbatim>\<open>sub_freq + ins_freq + del_freq\<close>.
\<close>

definition fuzz_char ::
  "real \<Rightarrow> real \<Rightarrow> real \<Rightarrow> bool \<Rightarrow> pychar \<Rightarrow> pystr \<times> rng \<Rightarrow> pystr \<times> rng" where
  "fuzz_char sub_freq ins_freq del_freq preserve_punctuation char st =
     (let (fuzzed_text, g) = st in
      if preserve_punctuation \<and> char \<in> set punctuation then (fuzzed_text @ [char], g)
      else
        let (rand_val, g1) = random_random g in
        if rand_val < sub_freq then
          (let (x, g2) = random_choice alphanumerics g1 in (fuzzed_text @ [x], g2))
        else if rand_val < float_add sub_freq ins_freq then
          (let (x, g2) = random_choice alphanumerics g1 in (fuzzed_text @ ([x] @ [char]), g2))
        else if rand_val < float_add (float_add sub_freq ins_freq) del_freq then
          (fuzzed_text, g1)
        else (fuzzed_text @ [char], g1))"

fun fuzz_loop ::
  "pystr \<Rightarrow> real \<Rightarrow> real \<Rightarrow> real \<Rightarrow> bool \<Rightarrow> pystr \<times> rng \<Rightarrow> pystr \<times> rng" where
  "fuzz_loop [] sub_freq ins_freq del_freq preserve_punctuation st = st"
| "fuzz_loop (char # rest) sub_freq ins_freq del_freq preserve_punctuation st =
     fuzz_loop rest sub_freq ins_freq del_freq preserve_punctuation
       (fuzz_char sub_freq ins_freq del_freq preserve_punctuation char st)"

definition fuzz_text ::
  "pystr \<Rightarrow> real \<Rightarrow> real \<Rightarrow> real \<Rightarrow> bool \<Rightarrow> rng \<Rightarrow> pystr \<times> rng" where
  "fuzz_text text sub_freq ins_freq del_freq preserve_punctuation g =
     fuzz_loop text sub_freq ins_freq del_freq preserve_punctuation ([], g)"

section \<open>Argument validation\<close>

text \<open>
  The parsed command line (\<^verbatim>\<open>argparse.Namespace\<close>). The two paths are kept as the
  strings they print as.
\<close>

record args =
  input_file :: string
  output_file :: string
  substitution_freq :: real
  insertion_freq :: real
  deletion_freq :: real
  preserve_punctuation :: bool

text \<open>The exceptions the program raises or meets, each with its message (\<^verbatim>\<open>str(e)\<close>).\<close>

datatype py_exception =
  ValueError string
| FileNotFoundError string
| IsADirectoryError string

fun exception_str :: "py_exception \<Rightarrow> string" where
  "exception_str (ValueError m) = m"
| "exception_str (FileNotFoundError m) = m"
| "exception_str (IsADirectoryError m) = m"

text \<open>
  The file system, as far as the program looks at it: a path names a regular file with
  its text, a directory, or nothing. Permissions, encodings and missing parent
  directories are outside this model.
\<close>

datatype node = File pystr | Dir

type_synonym filesystem = "string \<Rightarrow> node option"

definition is_file :: "filesystem \<Rightarrow> string \<Rightarrow> bool" where
  "is_file fs p = (case fs p of Some (File t) \<Rightarrow> True | Some Dir \<Rightarrow> False | None \<Rightarrow> False)"

definition is_dir :: "filesystem \<Rightarrow> string \<Rightarrow> bool" where
  "is_dir fs p = (case fs p of Some Dir \<Rightarrow> True | Some (File t) \<Rightarrow> False | None \<Rightarrow> False)"

definition validate_args :: "args \<Rightarrow> filesystem \<Rightarrow> py_exception + unit" where
  "validate_args a fs =
     (if \<not> (0 \<le> substitution_freq a \<and> substitution_freq a \<le> 1) then
        Inl (ValueError ''Substitution frequency must be between 0 and 1.'')
      else if \<not> (0 \<le> insertion_freq a \<and> insertion_freq a \<le> 1) then
        Inl (ValueError ''Insertion frequency must be between 0 and 1.'')
      else if \<not> (0 \<le> deletion_freq a \<and> deletion_freq a \<le> 1) then
        Inl (ValueError ''Deletion frequency must be between 0 and 1.'')
      else if float_add (float_add (substitution_freq a) (insertion_freq a))
                (deletion_freq a) > 1 then
        Inl (ValueError ''Total modification probability cannot be greater than 1.'')
      else if \<not> is_file fs (input_file a) then
        Inl (FileNotFoundError (''Input file not found: '' @ input_file a))
      else if is_dir fs (output_file a) then
        Inl (IsADirectoryError (''Output file cannot be a directory: '' @ output_file a))
      else Inr ())"

section \<open>The main program\<close>

text \<open>
  What \<^verbatim>\<open>main\<close> can read and change: the file system, the list of \<^verbatim>\<open>open\<close> calls made
  so far (path and mode), the log, and the random generator.
\<close>

datatype level = INFO | ERROR

record world =
  files :: filesystem
  opened :: "(string \<times> string) list"
  log :: "(level \<times> string) list"
  random_state :: rng

definition logging :: "level \<Rightarrow> string \<Rightarrow> world \<Rightarrow> world" where
  "logging l m w = w\<lparr>log := log w @ [(l, m)]\<rparr>"

text \<open>\<^verbatim>\<open>open(path, "r")\<close> followed by \<^verbatim>\<open>read()\<close>.\<close>

definition open_read :: "string \<Rightarrow> world \<Rightarrow> py_exception + (pystr \<times> world)" where
  "open_read p w =
     (let w' = w\<lparr>opened := opened w @ [(p, ''r'')]\<rparr> in
      case files w p of
        None \<Rightarrow>
          Inl (FileNotFoundError
                (''[Errno 2] No such file or directory: '' @ [CHR 0x27] @ p @ [CHR 0x27]))
      | Some Dir \<Rightarrow>
          Inl (IsADirectoryError (''[Errno 21] Is a directory: '' @ [CHR 0x27] @ p @ [CHR 0x27]))
      | Some (File t) \<Rightarrow> Inr (t, w'))"

text \<open>\<^verbatim>\<open>open(path, "w")\<close> followed by \<^verbatim>\<open>write(data)\<close>: the file is created or replaced.\<close>

definition open_write :: "string \<Rightarrow> pystr \<Rightarrow> world \<Rightarrow> py_exception + world" where
  "open_write p data w =
     (case files w p of
        Some Dir \<Rightarrow>
          Inl (IsADirectoryError (''[Errno 21] Is a directory: '' @ [CHR 0x27] @ p @ [CHR 0x27]))
      | Some (File t) \<Rightarrow>
          Inr (w\<lparr>files := (files w)(p \<mapsto> File data), opened := opened w @ [(p, ''w'')]\<rparr>)
      | None \<Rightarrow>
          Inr (w\<lparr>files := (files w)(p \<mapsto> File data), opened := opened w @ [(p, ''w'')]\<rparr>))"

text \<open>
  \<^verbatim>\<open>main\<close> after \<^verbatim>\<open>parse_args\<close>: it returns the exit status of the process and the
  world it leaves. Every exception of the \<^verbatim>\<open>try\<close> block is logged and ends the process
  with status 1.
\<close>

definition main :: "args \<Rightarrow> world \<Rightarrow> nat \<times> world" where
  "main a w =
     (case validate_args a (files w) of
        Inl e \<Rightarrow> (1, logging ERROR (''Error: '' @ exception_str e) w)
      | Inr u \<Rightarrow>
          (let w1 = logging INFO (''Fuzzing file: '' @ input_file a) w in
           case open_read (input_file a) w1 of
             Inl e \<Rightarrow> (1, logging ERROR (''Error: '' @ exception_str e) w1)
           | Inr (text, w2) \<Rightarrow>
               (let (fuzzed_text, g) =
                      fuzz_text text (substitution_freq a) (insertion_freq a) (deletion_freq a)
                        (preserve_punctuation a) (random_state w2);
                    w3 = w2\<lparr>random_state := g\<rparr>
                in case open_write (output_file a) fuzzed_text w3 of
                     Inl e \<Rightarrow> (1, logging ERROR (''Error: '' @ exception_str e) w3)
                   | Inr w4 \<Rightarrow>
                       (0, logging INFO (''Fuzzed text saved to: '' @ output_file a) w4))))"



section \<open>Sample inputs\<close>

text \<open>A generator state at its start whose first raw outputs are the given numbers
  (and \<open>0\<close> from then on), for evaluating the program on concrete inputs.\<close>

definition sample_rng :: "nat list \<Rightarrow> rng" where
  "sample_rng ks = \<lparr>raw = (\<lambda>n. if n < length ks then ks ! n else 0), pos = 0\<rparr>"

text \<open>The doubles that Python reads from the decimal numerals \<^verbatim>\<open>0.1\<close>, \<^verbatim>\<open>0.2\<close>,
  \<^verbatim>\<open>0.20000000000000004\<close> (the double after \<^verbatim>\<open>0.2\<close>), \<^verbatim>\<open>0.3\<close>, \<^verbatim>\<open>0.7\<close>, \<^verbatim>\<open>1.2\<close> and
  \<^verbatim>\<open>1e-17\<close>; \<^verbatim>\<open>0.5\<close> is \<open>1/2\<close> exactly.\<close>

definition double_0_1 :: real where
  "double_0_1 = 3602879701896397 / 2 ^ 55"

definition double_0_2 :: real where
  "double_0_2 = 3602879701896397 / 2 ^ 54"

definition double_0_2_up :: real where
  "double_0_2_up = 3602879701896398 / 2 ^ 54"


definition double_0_7 :: real where
  "double_0_7 = 3152519739159347 / 2 ^ 52"


definition double_1em17 :: real where
  "double_1em17 = 6490371073168535 / 2 ^ 109"

definition sample_args :: "real \<Rightarrow> real \<Rightarrow> real \<Rightarrow> args" where
  "sample_args s i d =
     \<lparr>input_file = ''input.txt'', output_file = ''output.txt'', substitution_freq = s,
      insertion_freq = i, deletion_freq = d, preserve_punctuation = False\<rparr>"

definition sample_world :: world where
  "sample_world =
     \<lparr>files = [''input.txt'' \<mapsto> File (py_str ''abc'')], opened = [], log = [],
      random_state = sample_rng []\<rparr>"

section \<open>Facts about floating-point addition\<close>

text \<open>The exponent brackets the number between two powers of 2.\<close>

lemma exponent_bounds:
  assumes "x \<noteq> 0"
  shows "2 powi exponent x \<le> \<bar>x\<bar> \<and> \<bar>x\<bar> < 2 powi (exponent x + 1)"
proof (cases "1 \<le> \<bar>x\<bar>")
  case True
  let ?n = "\<lfloor>\<bar>x\<bar>\<rfloor>"
  have n: "0 < ?n" using True by linarith
  have b: "1 \<le> bitlen ?n" using n by (simp add: bitlen_alt_def)
  have e: "exponent x = bitlen ?n - 1" using True by (simp add: exponent_def)
  from bitlen_bounds [OF n]
  have lo: "(2::int) ^ nat (bitlen ?n - 1) \<le> ?n" and hi: "?n < 2 ^ nat (bitlen ?n)" by auto
  have "(2::real) powi (bitlen ?n - 1) = of_int (2 ^ nat (bitlen ?n - 1))"
    using b by (simp add: power_int_def)
  also have "\<dots> \<le> of_int ?n" using lo by (simp only: of_int_le_iff)
  also have "\<dots> \<le> \<bar>x\<bar>" by simp
  finally have 1: "2 powi exponent x \<le> \<bar>x\<bar>" by (simp add: e)
  have "?n + 1 \<le> 2 ^ nat (bitlen ?n)" using hi by simp
  then have "real_of_int (?n + 1) \<le> of_int (2 ^ nat (bitlen ?n))" by (simp only: of_int_le_iff)
  then have up: "real_of_int ?n + 1 \<le> 2 ^ nat (bitlen ?n)" by simp
  have fl: "\<bar>x\<bar> < real_of_int ?n + 1" by linarith
  have lt: "\<bar>x\<bar> < 2 ^ nat (bitlen ?n)" using up fl by linarith
  have "(2::real) powi (bitlen ?n) = 2 ^ nat (bitlen ?n)"
    using b by (simp add: power_int_def)
  with lt have 2: "\<bar>x\<bar> < 2 powi (exponent x + 1)" unfolding e by simp
  from 1 2 show ?thesis ..
next
  case False
  let ?y = "1 / \<bar>x\<bar>"
  let ?m = "\<lceil>?y\<rceil> - 1"
  have x: "0 < \<bar>x\<bar>" "\<bar>x\<bar> < 1" using assms False by auto
  have y: "1 < ?y" using x by simp
  have m: "0 < ?m" using y by linarith
  have b: "1 \<le> bitlen ?m" using m by (simp add: bitlen_alt_def)
  have e: "exponent x = - bitlen ?m" using False by (simp add: exponent_def)
  from bitlen_bounds [OF m]
  have lo: "(2::int) ^ nat (bitlen ?m - 1) \<le> ?m" and hi: "?m < 2 ^ nat (bitlen ?m)" by auto
  have c1: "?y \<le> real_of_int \<lceil>?y\<rceil>" by linarith
  have c2: "real_of_int \<lceil>?y\<rceil> - 1 < ?y" by linarith
  from hi have "\<lceil>?y\<rceil> \<le> (2::int) ^ nat (bitlen ?m)" by linarith
  then have "real_of_int \<lceil>?y\<rceil> \<le> real_of_int (2 ^ nat (bitlen ?m))"
    by (simp only: of_int_le_iff)
  then have hi': "real_of_int \<lceil>?y\<rceil> \<le> 2 ^ nat (bitlen ?m)" by simp
  have yhi: "?y \<le> 2 ^ nat (bitlen ?m)" using c1 hi' by linarith
  from lo have "real_of_int (2 ^ nat (bitlen ?m - 1)) \<le> real_of_int ?m"
    by (simp only: of_int_le_iff)
  then have lo': "2 ^ nat (bitlen ?m - 1) \<le> real_of_int \<lceil>?y\<rceil> - 1" by simp
  have ylo: "2 ^ nat (bitlen ?m - 1) < ?y" using c2 lo' by linarith
  have p1: "(2::real) powi (- bitlen ?m) = 1 / 2 ^ nat (bitlen ?m)"
    using b by (simp add: power_int_def field_simps)
  have p2: "(2::real) powi (- bitlen ?m + 1) = 1 / 2 ^ nat (bitlen ?m - 1)"
    using b by (simp add: power_int_def field_simps nat_diff_distrib)
  have 1: "2 powi exponent x \<le> \<bar>x\<bar>"
    using yhi x unfolding e p1 by (simp add: field_simps)
  have 2: "\<bar>x\<bar> < 2 powi (exponent x + 1)"
    using ylo x unfolding e p2 by (simp add: field_simps)
  from 1 2 show ?thesis ..
qed

lemma quantum_pos: "0 < quantum x"
  by (simp add: quantum_def)

lemma round_even_error: "\<bar>of_int (round_even q) - q\<bar> \<le> 1 / 2"
  unfolding round_even_def by (auto simp: abs_if) linarith+

text \<open>The rounded value is a multiple of the spacing of the doubles around \<open>x\<close>, at
  most half a spacing away from \<open>x\<close>.\<close>

lemma round_double_error: "\<bar>round_double x - x\<bar> \<le> quantum x / 2"
proof (cases "x = 0")
  case True
  then show ?thesis using quantum_pos [of x] by (simp add: round_double_def)
next
  case False
  let ?q = "quantum x"
  let ?n = "real_of_int (round_even (x / ?q))"
  have q: "0 < ?q" by (rule quantum_pos)
  have "round_double x - x = (?n - x / ?q) * ?q"
    using False q by (simp add: round_double_def field_simps)
  then have "\<bar>round_double x - x\<bar> = \<bar>?n - x / ?q\<bar> * ?q"
    using q by (simp add: abs_mult)
  also have "\<dots> \<le> 1 / 2 * ?q"
    using round_even_error [of "x / ?q"] q by (intro mult_right_mono) auto
  finally show ?thesis by simp
qed

lemma exponent_eqI:
  assumes "2 powi e \<le> \<bar>x\<bar>" and "\<bar>x\<bar> < 2 powi (e + 1)"
  shows "exponent x = e"
proof -
  have "(0::real) < 2 powi e" by simp
  then have "0 < \<bar>x\<bar>" using assms(1) by linarith
  then have x: "x \<noteq> 0" by auto
  from exponent_bounds [OF x]
  have b: "2 powi exponent x \<le> \<bar>x\<bar>" "\<bar>x\<bar> < 2 powi (exponent x + 1)" by auto
  have "(2::real) powi e < 2 powi (exponent x + 1)" using assms(1) b(2) by linarith
  then have 1: "e < exponent x + 1"
    using power_int_increasing [of "exponent x + 1" e "2::real"] by (cases "e < exponent x + 1") auto
  have "(2::real) powi exponent x < 2 powi (e + 1)" using assms(2) b(1) by linarith
  then have 2: "exponent x < e + 1"
    using power_int_increasing [of "e + 1" "exponent x" "2::real"] by (cases "exponent x < e + 1") auto
  from 1 2 show ?thesis by linarith
qed

text \<open>Every number within \<open>2^-54\<close> of 1 rounds to 1.\<close>

lemma round_double_near_one:
  assumes "\<bar>v - 1\<bar> \<le> 1 / 2 ^ 54"
  shows "round_double v = 1"
proof (cases "1 \<le> v")
  case True
  have v: "v \<le> 1 + 1 / 2 ^ 54" using assms by linarith
  have e: "exponent v = 0"
    by (rule exponent_eqI) (use True v in auto)
  have q: "quantum v = 1 / 2 ^ 52"
    by (simp add: quantum_def e power_int_minus field_simps)
  have f: "\<lfloor>v * 2 ^ 52\<rfloor> = 2 ^ 52"
    by (rule floor_unique) (use True v in auto)
  have "round_even (v * 2 ^ 52) = 2 ^ 52"
    unfolding round_even_def f using v by auto
  then show ?thesis using True by (simp add: round_double_def q)
next
  case False
  have v: "1 - 1 / 2 ^ 54 \<le> v" "v < 1" using assms False by linarith+
  have e: "exponent v = - 1"
    by (rule exponent_eqI) (use v in auto)
  have q: "quantum v = 1 / 2 ^ 53"
    by (simp add: quantum_def e power_int_minus field_simps)
  have f: "\<lfloor>v * 2 ^ 53\<rfloor> = 2 ^ 53 - 1"
    by (rule floor_unique) (use v in auto)
  have "round_even (v * 2 ^ 53) = 2 ^ 53"
    unfolding round_even_def f using v by auto
  then show ?thesis using v by (simp add: round_double_def q)
qed


lemma quantum_below_one:
  assumes "0 < t" and "t < 1"
  shows "quantum t \<le> 1 / 2 ^ 53"
proof -
  have t: "t \<noteq> 0" using assms by auto
  from exponent_bounds [OF t] have lt: "2 powi exponent t < (1::real)"
    using assms by simp
  have "exponent t < 0"
  proof (rule ccontr)
    assume "\<not> exponent t < 0"
    then have "0 \<le> exponent t" by simp
    then have "(1::real) \<le> 2 powi exponent t" by simp
    with lt show False by linarith
  qed
  then have "max (exponent t) (- 1022) - 52 \<le> - 53" by simp
  then have "(2::real) powi (max (exponent t) (- 1022) - 52) \<le> 2 powi (- 53)"
    by (intro power_int_increasing) auto
  then show ?thesis by (simp add: quantum_def power_int_minus field_simps)
qed

text \<open>
  When the exact sum of three numbers is 1 and the third lies in \<open>[0, 1]\<close>, their
  floating-point sum, taken from left to right, is 1 as well: the first addition is off
  by at most \<open>2^-54\<close>, and the second rounds that away.
\<close>

lemma float_add_sum_one:
  assumes "s + i + d = 1" and "0 \<le> d" and "d \<le> 1"
  shows "float_add (float_add s i) d = 1"
proof -
  let ?t = "s + i"
  have t: "?t = 1 - d" using assms(1) by simp
  have "\<bar>round_double ?t - ?t\<bar> \<le> 1 / 2 ^ 54"
  proof (cases "0 < ?t \<and> ?t < 1")
    case True
    then have "quantum ?t \<le> 1 / 2 ^ 53" by (intro quantum_below_one) auto
    with round_double_error [of ?t] show ?thesis by simp
  next
    case False
    then have "?t = 0 \<or> ?t = 1" using t assms(2,3) by auto
    then show ?thesis
    proof
      assume "?t = 0" then show ?thesis by (simp add: round_double_def)
    next
      assume "?t = 1"
      moreover have "round_double 1 = 1" by (rule round_double_near_one) simp
      ultimately show ?thesis by simp
    qed
  qed
  moreover have "round_double ?t + d - 1 = round_double ?t - ?t" using t by simp
  ultimately have "\<bar>round_double ?t + d - 1\<bar> \<le> 1 / 2 ^ 54" by (simp only:)
  then have "round_double (round_double ?t + d) = 1" by (rule round_double_near_one)
  then show ?thesis by (simp add: float_add_def)
qed

lemma float_add_zero: "float_add 0 0 = 0"
  by (simp add: float_add_def round_double_def)

text \<open>The equations that evaluate a floating-point sum of two given numbers.\<close>

lemmas float_simps =
  float_add_def round_double_def round_even_def quantum_def exponent_def compute_bitlen
  power_int_minus

text \<open>In Python, \<^verbatim>\<open>0.1 + 0.7\<close> is \<^verbatim>\<open>0.7999999999999999\<close>, below the exact sum of the two
  doubles, and \<^verbatim>\<open>0.7 + 0.2 + 0.1\<close> is \<^verbatim>\<open>0.9999999999999999\<close>.\<close>

lemma float_add_0_1_0_7: "float_add double_0_1 double_0_7 = 7205759403792793 / 2 ^ 53"
  by (simp add: double_0_1_def double_0_7_def float_simps)

lemma float_add_0_7_0_2_0_1:
  "float_add (float_add double_0_7 double_0_2) double_0_1 = 9007199254740991 / 2 ^ 53"
  by (simp add: double_0_7_def double_0_2_def double_0_1_def float_simps)

lemma float_add_half_half_1em17: "float_add (float_add (1/2) (1/2)) double_1em17 = 1"
  by (simp add: double_1em17_def float_simps)

section \<open>Facts about the character classes and the generator\<close>

lemma length_alphanumerics: "length alphanumerics = 62"
  by (simp add: alphanumerics_def ascii_letters_def ascii_lowercase_def ascii_uppercase_def
      digits_def py_str_def)

lemma set_punctuation:
  "set punctuation = {33..<48} \<union> {58..<65} \<union> {91..<97} \<union> {123..<127}"
  by (simp only: punctuation_def set_append set_upt Un_assoc)

lemma alphanumerics_upt: "alphanumerics = [97..<123] @ [65..<91] @ [48..<58]"
  by (simp add: alphanumerics_def ascii_letters_def ascii_lowercase_def ascii_uppercase_def
      digits_def py_str_def)

lemma set_alphanumerics: "set alphanumerics = {97..<123} \<union> {65..<91} \<union> {48..<58}"
  by (simp only: alphanumerics_upt set_append set_upt Un_assoc)

lemma punctuation_iff:
  "c \<in> set punctuation \<longleftrightarrow>
     33 \<le> c \<and> c < 48 \<or> 58 \<le> c \<and> c < 65 \<or> 91 \<le> c \<and> c < 97 \<or> 123 \<le> c \<and> c < 127"
  by (simp only: set_punctuation Un_iff atLeastLessThan_iff disj_assoc)

text \<open>Lower-case letters, upper-case letters and digits, by code point.\<close>

lemma alphanumerics_iff:
  "c \<in> set alphanumerics \<longleftrightarrow>
     97 \<le> c \<and> c < 123 \<or> 65 \<le> c \<and> c < 91 \<or> 48 \<le> c \<and> c < 58"
  by (simp only: set_alphanumerics Un_iff atLeastLessThan_iff disj_assoc)

lemma alnum_not_punct: "c \<in> set alphanumerics \<Longrightarrow> c \<notin> set punctuation"
  unfolding punctuation_iff alphanumerics_iff by arith

lemma random_random_range: "0 \<le> fst (random_random g) \<and> fst (random_random g) < 1"
  by (simp add: random_random_def)

lemma random_choice_alnum: "fst (random_choice alphanumerics g) \<in> set alphanumerics"
  by (simp add: random_choice_def length_alphanumerics)

section \<open>One iteration of the loop\<close>

text \<open>The loop only ever appends to the text built so far.\<close>

lemma fuzz_char_acc:
  "fuzz_char s i d p c (acc, g) =
     (acc @ fst (fuzz_char s i d p c ([], g)), snd (fuzz_char s i d p c ([], g)))"
  by (simp add: fuzz_char_def Let_def split: prod.splits)

lemma fuzz_char_exempt:
  "p \<and> c \<in> set punctuation \<Longrightarrow> fuzz_char s i d p c ([], g) = ([c], g)"
  by (simp add: fuzz_char_def)

lemma fuzz_char_draw:
  "\<not> (p \<and> c \<in> set punctuation) \<Longrightarrow>
   fuzz_char s i d p c ([], g) =
     (if fst (random_random g) < s then
        ([fst (random_choice alphanumerics (snd (random_random g)))],
         snd (random_choice alphanumerics (snd (random_random g))))
      else if fst (random_random g) < float_add s i then
        ([fst (random_choice alphanumerics (snd (random_random g))), c],
         snd (random_choice alphanumerics (snd (random_random g))))
      else if fst (random_random g) < float_add (float_add s i) d then
        ([], snd (random_random g))
      else ([c], snd (random_random g)))"
  by (cases p) (simp_all add: fuzz_char_def Let_def case_prod_unfold)

lemma fuzz_char_length:
  "length (fst (fuzz_char s i d p c ([], g))) =
     (if p \<and> c \<in> set punctuation then 1
      else if fst (random_random g) < s then 1
      else if fst (random_random g) < float_add s i then 2
      else if fst (random_random g) < float_add (float_add s i) d then 0
      else 1)"
proof (cases "p \<and> c \<in> set punctuation")
  case True
  then show ?thesis by (simp add: fuzz_char_exempt)
next
  case False
  then show ?thesis by (simp add: fuzz_char_draw)
qed

lemma fuzz_char_set:
  "set (fst (fuzz_char s i d p c ([], g))) \<subseteq> insert c (set alphanumerics)"
proof (cases "p \<and> c \<in> set punctuation")
  case True
  then show ?thesis by (simp add: fuzz_char_exempt)
next
  case False
  then show ?thesis
    using random_choice_alnum [of "snd (random_random g)"] by (simp add: fuzz_char_draw)
qed

lemma fuzz_char_no_new_punct:
  "\<not> (p \<and> c \<in> set punctuation) \<Longrightarrow> p \<Longrightarrow>
   filter (\<lambda>x. x \<in> set punctuation) (fst (fuzz_char s i d p c ([], g))) = []"
  using alnum_not_punct [OF random_choice_alnum]
  by (simp add: fuzz_char_draw)

section \<open>The whole text, piece by piece\<close>

lemma fuzz_loop_acc:
  "fuzz_loop cs s i d p (acc, g) =
     (acc @ fst (fuzz_loop cs s i d p ([], g)), snd (fuzz_loop cs s i d p ([], g)))"
proof (induction cs arbitrary: acc g)
  case Nil
  show ?case by simp
next
  case (Cons c cs)
  obtain piece g' where step: "fuzz_char s i d p c ([], g) = (piece, g')"
    by (cases "fuzz_char s i d p c ([], g)")
  have "fuzz_char s i d p c (acc, g) = (acc @ piece, g')"
    using fuzz_char_acc [of s i d p c acc g] step by simp
  then show ?case
    using Cons.IH [of "acc @ piece" g'] Cons.IH [of piece g'] step by simp
qed

lemma fuzz_text_Nil: "fuzz_text [] s i d p g = ([], g)"
  by (simp add: fuzz_text_def)

lemma fuzz_text_Cons:
  "fuzz_text (c # cs) s i d p g =
     (fst (fuzz_char s i d p c ([], g))
        @ fst (fuzz_text cs s i d p (snd (fuzz_char s i d p c ([], g)))),
      snd (fuzz_text cs s i d p (snd (fuzz_char s i d p c ([], g)))))"
proof -
  obtain piece g' where step: "fuzz_char s i d p c ([], g) = (piece, g')"
    by (cases "fuzz_char s i d p c ([], g)")
  show ?thesis
    using fuzz_loop_acc [of cs s i d p piece g'] step by (simp add: fuzz_text_def)
qed

lemma fuzz_text_append:
  "fuzz_text (xs @ ys) s i d p g =
     (fst (fuzz_text xs s i d p g) @ fst (fuzz_text ys s i d p (snd (fuzz_text xs s i d p g))),
      snd (fuzz_text ys s i d p (snd (fuzz_text xs s i d p g))))"
proof (induction xs arbitrary: g)
  case Nil
  show ?case by (simp add: fuzz_text_Nil)
next
  case (Cons c cs)
  show ?case
    by (simp add: fuzz_text_Cons Cons.IH)
qed

text \<open>
  The character at any position of the text: the output is the output for the characters
  before it, then what its own iteration appends, then the output for the characters
  after it, with the generator handed on from one part to the next.
\<close>

lemma fuzz_text_at:
  "fuzz_text (xs @ c # ys) s i d p g =
     (fst (fuzz_text xs s i d p g)
        @ fst (fuzz_char s i d p c ([], snd (fuzz_text xs s i d p g)))
        @ fst (fuzz_text ys s i d p
                 (snd (fuzz_char s i d p c ([], snd (fuzz_text xs s i d p g))))),
      snd (fuzz_text ys s i d p
             (snd (fuzz_char s i d p c ([], snd (fuzz_text xs s i d p g))))))"
  by (simp add: fuzz_text_append [of xs "c # ys"] fuzz_text_Cons)

lemma fuzz_text_length_le: "length (fst (fuzz_text t s i d p g)) \<le> 2 * length t"
proof (induction t arbitrary: g)
  case Nil
  show ?case by (simp add: fuzz_text_Nil)
next
  case (Cons c cs)
  have "length (fst (fuzz_char s i d p c ([], g))) \<le> 2"
    by (simp add: fuzz_char_length)
  moreover have
    "length (fst (fuzz_text cs s i d p (snd (fuzz_char s i d p c ([], g))))) \<le> 2 * length cs"
    by (rule Cons.IH)
  ultimately show ?case by (simp add: fuzz_text_Cons)
qed

lemma fuzz_text_set: "set (fst (fuzz_text t s i d p g)) \<subseteq> set t \<union> set alphanumerics"
proof (induction t arbitrary: g)
  case Nil
  show ?case by (simp add: fuzz_text_Nil)
next
  case (Cons c cs)
  show ?case
    using fuzz_char_set [of s i d p c g] Cons.IH [of "snd (fuzz_char s i d p c ([], g))"]
    by (auto simp: fuzz_text_Cons)
qed

lemma fuzz_text_filter_punct:
  "filter (\<lambda>x. x \<in> set punctuation) (fst (fuzz_text t s i d True g)) =
   filter (\<lambda>x. x \<in> set punctuation) t"
proof (induction t arbitrary: g)
  case Nil
  show ?case by (simp add: fuzz_text_Nil)
next
  case (Cons c cs)
  show ?case
  proof (cases "c \<in> set punctuation")
    case True
    then show ?thesis by (simp add: fuzz_text_Cons fuzz_char_exempt Cons.IH)
  next
    case False
    then have "filter (\<lambda>x. x \<in> set punctuation) (fst (fuzz_char s i d True c ([], g))) = []"
      using fuzz_char_no_new_punct [of True c s i d g] by simp
    with False show ?thesis by (simp add: fuzz_text_Cons Cons.IH)
  qed
qed

text \<open>The equations that run the program on a concrete input.\<close>

lemmas run_simps =
  fuzz_text_def fuzz_char_def random_random_def random_choice_def sample_rng_def
  punctuation_iff length_alphanumerics alphanumerics_upt Let_def float_simps



text \<open>A run of the whole program on valid arguments: it reads the input file, writes the
  output file and ends with status 0.\<close>

lemma main_sample_run:
  "fst (main (sample_args 0 0 0) sample_world) = 0 \<and>
   files (snd (main (sample_args 0 0 0) sample_world)) ''output.txt'' =
     Some (File (py_str ''abc'')) \<and>
   opened (snd (main (sample_args 0 0 0) sample_world)) =
     [(''input.txt'', ''r''), (''output.txt'', ''w'')]"
  by (simp add: main_def validate_args_def sample_args_def sample_world_def is_file_def
      is_dir_def open_read_def open_write_def logging_def py_str_def run_simps)


section \<open>The claims\<close>

text \<open>
  C1, as stated, fails when the thresholds are read as exact sums. With
  \<^verbatim>\<open>sub_freq = 0.1\<close>, \<^verbatim>\<open>ins_freq = 0.7\<close>, \<^verbatim>\<open>del_freq = 0.0\<close> and the draw
  \<open>r = 7205759403792793 / 2^53\<close> (\<^verbatim>\<open>0.7999999999999999\<close>), \<open>r\<close> is not below \<open>sub_freq\<close>
  and is below the exact sum of \<open>sub_freq\<close> and \<open>ins_freq\<close>, yet nothing is inserted:
  the text \<open>a\<close> comes out as \<open>a\<close>. The program compares \<open>r\<close> with the floating-point
  sum \<^verbatim>\<open>0.1 + 0.7\<close>, which is \<open>r\<close> itself.
\<close>

theorem fuzz_text_exact_sum_counterexample:
  "fst (random_random (sample_rng [7205759403792793])) = 7205759403792793 / 2 ^ 53 \<and>
   \<not> fst (random_random (sample_rng [7205759403792793])) < double_0_1 \<and>
   fst (random_random (sample_rng [7205759403792793])) < double_0_1 + double_0_7 \<and>
   fuzz_text [97] double_0_1 double_0_7 0 False (sample_rng [7205759403792793]) =
     ([97], \<lparr>raw = raw (sample_rng [7205759403792793]), pos = 1\<rparr>)"
  by (simp add: double_0_1_def double_0_7_def run_simps)

text \<open>
  C1, amended. A character that is not exempted as punctuation is decided by one ordered
  conditional on a single draw \<open>r\<close> of \<^verbatim>\<open>random.random()\<close>: substitution if
  \<open>r < sub_freq\<close>, else insertion if \<open>r\<close> is below the floating-point sum
  \<open>sub_freq + ins_freq\<close>, else deletion if \<open>r\<close> is below the floating-point sum
  \<open>(sub_freq + ins_freq) + del_freq\<close>, else the character unchanged. The character
  \<open>c\<close> stands at any position of the text (after \<open>xs\<close>, before \<open>ys\<close>); the
  generator reaches it in the state \<open>g0\<close> that the characters before it left, the
  draw is taken once, and the three thresholds are cumulative tests of that one draw.
\<close>

theorem fuzz_text_cumulative_thresholds:
  "\<not> (p \<and> c \<in> set punctuation) \<Longrightarrow>
   fuzz_text (xs @ c # ys) s i d p g =
     (let before = fst (fuzz_text xs s i d p g);
          g0 = snd (fuzz_text xs s i d p g);
          (r, g1) = random_random g0;
          (x, g2) = random_choice alphanumerics g1
      in if r < s then
           (before @ [x] @ fst (fuzz_text ys s i d p g2), snd (fuzz_text ys s i d p g2))
         else if r < float_add s i then
           (before @ [x, c] @ fst (fuzz_text ys s i d p g2), snd (fuzz_text ys s i d p g2))
         else if r < float_add (float_add s i) d then
           (before @ fst (fuzz_text ys s i d p g1), snd (fuzz_text ys s i d p g1))
         else
           (before @ [c] @ fst (fuzz_text ys s i d p g1), snd (fuzz_text ys s i d p g1)))"
proof -
  assume h: "\<not> (p \<and> c \<in> set punctuation)"
  show ?thesis
    unfolding fuzz_text_at [of xs c ys] fuzz_char_draw [OF h] Let_def case_prod_unfold
    by simp
qed

text \<open>
  On the text \<open>.ab\<close> with all three frequencies \<open>1/4\<close>: the draw for \<open>a\<close> is \<open>1/4\<close>,
  which is not below \<open>sub_freq\<close> but below \<open>sub_freq + ins_freq\<close>, so a character is
  inserted before it (the choice index is 1, the letter \<open>b\<close>); the draw for \<open>b\<close> is
  \<open>3/4\<close> and it passes unchanged.
\<close>

theorem fuzz_text_cumulative_thresholds_witness:
  "\<not> (True \<and> 97 \<in> set punctuation) \<and>
   fuzz_text ([46] @ 97 # [98]) (1/4) (1/4) (1/4) True
       (sample_rng [2251799813685248, 1, 6755399441055744]) =
     ([46, 98, 97, 98],
      \<lparr>raw = raw (sample_rng [2251799813685248, 1, 6755399441055744]), pos = 3\<rparr>)"
  using fuzz_text_cumulative_thresholds [of True 97 "[46]" "[98]" "1/4" "1/4" "1/4"
      "sample_rng [2251799813685248, 1, 6755399441055744]"]
  by (simp add: run_simps)

text \<open>
  C2. With all three frequencies 0 the output text is the input text, for every text,
  either setting of the punctuation flag and every state of the generator.
\<close>

theorem fuzz_text_zero_freq_identity: "fst (fuzz_text t 0 0 0 p g) = t"
proof (induction t arbitrary: g)
  case Nil
  show ?case by (simp add: fuzz_text_Nil)
next
  case (Cons c cs)
  have r: "\<not> fst (random_random g) < 0" for g
    using random_random_range [of g] by simp
  have "fst (fuzz_char 0 0 0 p c ([], g)) = [c]"
  proof (cases "p \<and> c \<in> set punctuation")
    case True
    then show ?thesis by (simp add: fuzz_char_exempt)
  next
    case False
    then show ?thesis by (simp add: fuzz_char_draw float_add_zero r)
  qed
  then show ?case by (simp add: fuzz_text_Cons Cons.IH)
qed

text \<open>
  C3. With punctuation preserved, a punctuation character at any position of the text is
  emitted as it is, between the output for the characters before it and the output for
  the characters after it, and the generator is handed on untouched (no draw is made for
  it): it is not substituted, nothing is inserted before it, and it is not deleted.
  Moreover the punctuation characters of the output are exactly those of the input, in
  the same order.
\<close>

theorem fuzz_text_preserves_punctuation:
  "c \<in> set punctuation \<Longrightarrow>
   fuzz_text (xs @ c # ys) s i d True g =
     (let before = fst (fuzz_text xs s i d True g);
          g0 = snd (fuzz_text xs s i d True g)
      in (before @ [c] @ fst (fuzz_text ys s i d True g0), snd (fuzz_text ys s i d True g0)))
   \<and> filter (\<lambda>x. x \<in> set punctuation) (fst (fuzz_text (xs @ c # ys) s i d True g)) =
     filter (\<lambda>x. x \<in> set punctuation) (xs @ c # ys)"
  by (simp only: fuzz_text_filter_punct)
     (simp add: fuzz_text_at fuzz_char_exempt Let_def)

theorem fuzz_text_preserves_punctuation_witness:
  "46 \<in> set punctuation \<and>
   fuzz_text ([97] @ 46 # [98]) 1 0 0 True (sample_rng [0, 1, 0, 2]) =
     ([98, 46, 99], \<lparr>raw = raw (sample_rng [0, 1, 0, 2]), pos = 4\<rparr>) \<and>
   filter (\<lambda>x. x \<in> set punctuation)
      (fst (fuzz_text ([97] @ 46 # [98]) 1 0 0 True (sample_rng [0, 1, 0, 2]))) = [46]"
  using fuzz_text_preserves_punctuation [of 46 "[97]" "[98]" 1 0 0 "sample_rng [0, 1, 0, 2]"]
  by (simp add: run_simps)




text \<open>
  C5, as stated, fails where punctuation is preserved: with frequencies \<open>(1, 0, 0)\<close>,
  which sum to exactly 1, the text \<open>.\<close> comes out as \<open>.\<close> and no draw is made. The
  character is not modified: the output is not empty (no deletion), has one character
  (no insertion), and that character is not alphanumeric (no substitution).

  It also fails for the frequencies \<^verbatim>\<open>0.7\<close>, \<^verbatim>\<open>0.2\<close>, \<^verbatim>\<open>0.1\<close>, with punctuation not
  preserved: the program's sum \<^verbatim>\<open>0.7 + 0.2 + 0.1\<close> is \<^verbatim>\<open>0.9999999999999999\<close>, the
  largest possible draw \<open>1 - 2^-53\<close> is not below it, and the text \<open>a\<close> comes out as
  \<open>a\<close> through the branch that emits the character unchanged.
\<close>

theorem fuzz_text_sum_one_punctuation_counterexample:
  "(1::real) + 0 + 0 = 1 \<and>
   fuzz_text [46] 1 0 0 True (sample_rng []) = ([46], sample_rng []) \<and>
   46 \<notin> set alphanumerics \<and>
   float_add (float_add double_0_7 double_0_2) double_0_1 = 9007199254740991 / 2 ^ 53 \<and>
   fst (random_random (sample_rng [9007199254740991])) = 9007199254740991 / 2 ^ 53 \<and>
   fuzz_text [97] double_0_7 double_0_2 double_0_1 False (sample_rng [9007199254740991]) =
     ([97], \<lparr>raw = raw (sample_rng [9007199254740991]), pos = 1\<rparr>)"
  by (simp add: double_0_7_def double_0_2_def double_0_1_def alphanumerics_iff run_simps)

text \<open>
  C5, amended. When the floating-point sum of the three frequencies, as the program
  computes it, is exactly 1, every character that is not exempted by punctuation
  preservation is substituted, gets a character inserted before it, or is deleted: the
  branch that emits it unchanged is unreachable, since the draw is below 1. The
  thresholds of the three branches are the floating-point sums. By \<open>float_add_sum_one\<close>
  this covers every three doubles in \<open>[0, 1]\<close> whose exact sum is 1.
\<close>

theorem fuzz_text_sum_one_no_pass_through:
  "float_add (float_add s i) d = 1 \<Longrightarrow> \<not> (p \<and> c \<in> set punctuation) \<Longrightarrow>
   fuzz_text (xs @ c # ys) s i d p g =
     (let before = fst (fuzz_text xs s i d p g);
          g0 = snd (fuzz_text xs s i d p g);
          (r, g1) = random_random g0;
          (x, g2) = random_choice alphanumerics g1
      in if r < s then
           (before @ [x] @ fst (fuzz_text ys s i d p g2), snd (fuzz_text ys s i d p g2))
         else if r < float_add s i then
           (before @ [x, c] @ fst (fuzz_text ys s i d p g2), snd (fuzz_text ys s i d p g2))
         else
           (before @ fst (fuzz_text ys s i d p g1), snd (fuzz_text ys s i d p g1)))"
proof -
  assume sum: "float_add (float_add s i) d = 1" and h: "\<not> (p \<and> c \<in> set punctuation)"
  have "fst (random_random (snd (fuzz_text xs s i d p g))) < float_add (float_add s i) d"
    using random_random_range [of "snd (fuzz_text xs s i d p g)"] sum by simp
  then show ?thesis
    unfolding fuzz_text_at [of xs c ys] fuzz_char_draw [OF h] Let_def case_prod_unfold
    by simp
qed

text \<open>
  The doubles \<^verbatim>\<open>0.1\<close>, \<^verbatim>\<open>0.7\<close> and \<^verbatim>\<open>0.20000000000000004\<close> have the floating-point sum
  1. The draw \<^verbatim>\<open>0.7999999999999999\<close> is not below \<^verbatim>\<open>0.1 + 0.7\<close>, which is the same
  double, so nothing is inserted; the character is deleted.
\<close>

theorem fuzz_text_sum_one_no_pass_through_witness:
  "float_add (float_add double_0_1 double_0_7) double_0_2_up = 1 \<and>
   \<not> (False \<and> 97 \<in> set punctuation) \<and>
   fuzz_text ([] @ 97 # []) double_0_1 double_0_7 double_0_2_up False
       (sample_rng [7205759403792793]) =
     ([], \<lparr>raw = raw (sample_rng [7205759403792793]), pos = 1\<rparr>)"
  using fuzz_text_sum_one_no_pass_through [of double_0_1 double_0_7 double_0_2_up False 97
      "[]" "[]" "sample_rng [7205759403792793]"]
  by (simp add: double_0_1_def double_0_7_def double_0_2_up_def run_simps)

text \<open>
  C6. Whenever a character is substituted (it is not exempt and its draw is below
  \<open>sub_freq\<close>), exactly one character stands in its place in the output, and that
  character is an element of \<open>alphanumerics\<close>: a lower-case letter, an upper-case
  letter or a digit.
\<close>

theorem fuzz_text_substitution_alphanumeric:
  "\<not> (p \<and> c \<in> set punctuation) \<Longrightarrow>
   fst (random_random (snd (fuzz_text xs s i d p g))) < s \<Longrightarrow>
   (let before = fst (fuzz_text xs s i d p g);
        g1 = snd (random_random (snd (fuzz_text xs s i d p g)));
        (x, g2) = random_choice alphanumerics g1
    in fuzz_text (xs @ c # ys) s i d p g =
         (before @ [x] @ fst (fuzz_text ys s i d p g2), snd (fuzz_text ys s i d p g2))
       \<and> x \<in> set alphanumerics
       \<and> (97 \<le> x \<and> x < 123 \<or> 65 \<le> x \<and> x < 91 \<or> 48 \<le> x \<and> x < 58))"
proof -
  assume h: "\<not> (p \<and> c \<in> set punctuation)"
    and r: "fst (random_random (snd (fuzz_text xs s i d p g))) < s"
  let ?g1 = "snd (random_random (snd (fuzz_text xs s i d p g)))"
  let ?x = "fst (random_choice alphanumerics ?g1)"
  have mem: "?x \<in> set alphanumerics"
    by (rule random_choice_alnum)
  have rng: "97 \<le> ?x \<and> ?x < 123 \<or> 65 \<le> ?x \<and> ?x < 91 \<or> 48 \<le> ?x \<and> ?x < 58"
    using mem unfolding alphanumerics_iff .
  show ?thesis
    unfolding fuzz_text_at [of xs c ys] fuzz_char_draw [OF h] Let_def case_prod_unfold
    using r mem rng by simp
qed

theorem fuzz_text_substitution_alphanumeric_witness:
  "\<not> (False \<and> 46 \<in> set punctuation) \<and>
   fst (random_random (snd (fuzz_text [97] (1/2) 0 0 False
          (sample_rng [6755399441055744, 0, 61, 6755399441055744])))) < 1/2 \<and>
   fuzz_text ([97] @ 46 # [98]) (1/2) 0 0 False
       (sample_rng [6755399441055744, 0, 61, 6755399441055744]) =
     ([97, 57, 98],
      \<lparr>raw = raw (sample_rng [6755399441055744, 0, 61, 6755399441055744]), pos = 4\<rparr>) \<and>
   57 \<in> set alphanumerics"
  using fuzz_text_substitution_alphanumeric [of False 46 "[97]" "1/2" 0 0
      "sample_rng [6755399441055744, 0, 61, 6755399441055744]" "[98]"]
  by (simp add: run_simps)

text \<open>
  C7. Whenever a character triggers insertion (it is not exempt and its draw is not below
  \<open>sub_freq\<close> but below the sum \<open>sub_freq + ins_freq\<close> that the program computes, a
  floating-point sum), the output holds exactly one element
  of \<open>alphanumerics\<close> immediately followed by the original character, between the
  output for the characters before and the output for the characters after: two
  characters for one, a net increase of 1.
\<close>

theorem fuzz_text_insertion_before_original:
  "\<not> (p \<and> c \<in> set punctuation) \<Longrightarrow>
   \<not> fst (random_random (snd (fuzz_text xs s i d p g))) < s \<Longrightarrow>
   fst (random_random (snd (fuzz_text xs s i d p g))) < float_add s i \<Longrightarrow>
   (let before = fst (fuzz_text xs s i d p g);
        g1 = snd (random_random (snd (fuzz_text xs s i d p g)));
        (x, g2) = random_choice alphanumerics g1;
        after = fst (fuzz_text ys s i d p g2)
    in fuzz_text (xs @ c # ys) s i d p g = (before @ [x, c] @ after, snd (fuzz_text ys s i d p g2))
       \<and> x \<in> set alphanumerics
       \<and> length (fst (fuzz_text (xs @ c # ys) s i d p g)) = length before + 2 + length after)"
proof -
  assume h: "\<not> (p \<and> c \<in> set punctuation)"
    and r1: "\<not> fst (random_random (snd (fuzz_text xs s i d p g))) < s"
    and r2: "fst (random_random (snd (fuzz_text xs s i d p g))) < float_add s i"
  let ?g1 = "snd (random_random (snd (fuzz_text xs s i d p g)))"
  have mem: "fst (random_choice alphanumerics ?g1) \<in> set alphanumerics"
    by (rule random_choice_alnum)
  show ?thesis
    unfolding fuzz_text_at [of xs c ys] fuzz_char_draw [OF h] Let_def case_prod_unfold
    using r1 r2 mem by simp
qed

theorem fuzz_text_insertion_before_original_witness:
  "\<not> (True \<and> 97 \<in> set punctuation) \<and>
   \<not> fst (random_random (snd (fuzz_text [46] (1/4) (1/4) 0 True
            (sample_rng [2251799813685248, 27, 6755399441055744])))) < 1/4 \<and>
   fst (random_random (snd (fuzz_text [46] (1/4) (1/4) 0 True
          (sample_rng [2251799813685248, 27, 6755399441055744])))) < float_add (1/4) (1/4) \<and>
   fuzz_text ([46] @ 97 # [98]) (1/4) (1/4) 0 True
       (sample_rng [2251799813685248, 27, 6755399441055744]) =
     ([46, 66, 97, 98],
      \<lparr>raw = raw (sample_rng [2251799813685248, 27, 6755399441055744]), pos = 3\<rparr>) \<and>
   66 \<in> set alphanumerics \<and>
   length (fst (fuzz_text ([46] @ 97 # [98]) (1/4) (1/4) 0 True
                  (sample_rng [2251799813685248, 27, 6755399441055744]))) = 1 + 2 + 1"
  using fuzz_text_insertion_before_original [of True 97 "[46]" "1/4" "1/4" 0
      "sample_rng [2251799813685248, 27, 6755399441055744]" "[98]"]
  by (simp add: run_simps)

text \<open>
  C8. The empty text gives the empty text, for every configuration; the generator is not
  used.
\<close>

theorem fuzz_text_empty: "fuzz_text [] s i d p g = ([], g)"
  by (simp add: fuzz_text_def)

text \<open>
  C9. The output is at most twice as long as the input. The character at any position
  contributes one piece to the output, of length 1 when it is preserved punctuation,
  substituted or passed through, 2 when a character is inserted before it, and 0 when
  it is deleted. The branch is the one the program takes: its thresholds are the
  floating-point sums.
\<close>

theorem fuzz_text_length_bound:
  "length (fst (fuzz_text t s i d p g)) \<le> 2 * length t \<and>
   (let before = fst (fuzz_text xs s i d p g);
        g0 = snd (fuzz_text xs s i d p g);
        (piece, g') = fuzz_char s i d p c ([], g0)
    in fst (fuzz_text (xs @ c # ys) s i d p g) = before @ piece @ fst (fuzz_text ys s i d p g') \<and>
       length piece =
         (if p \<and> c \<in> set punctuation then 1
          else if fst (random_random g0) < s then 1
          else if fst (random_random g0) < float_add s i then 2
          else if fst (random_random g0) < float_add (float_add s i) d then 0
          else 1))"
  by (simp add: fuzz_text_length_le fuzz_text_at fuzz_char_length Let_def case_prod_unfold
      del: One_nat_def)

text \<open>
  C10. Every character of the output occurs in the input text or is an ASCII
  alphanumeric character (an element of \<open>alphanumerics\<close>, that is a lower-case letter,
  an upper-case letter or a digit).
\<close>

theorem fuzz_text_output_characters:
  "x \<in> set (fst (fuzz_text t s i d p g)) \<Longrightarrow>
   x \<in> set t \<or> (x \<in> set alphanumerics \<and>
     (97 \<le> x \<and> x < 123 \<or> 65 \<le> x \<and> x < 91 \<or> 48 \<le> x \<and> x < 58))"
  using fuzz_text_set [of t s i d p g] alphanumerics_iff [of x] by blast

theorem fuzz_text_output_characters_witness:
  "66 \<in> set (fst (fuzz_text [46, 97, 98] (1/4) (1/4) 0 True
                   (sample_rng [2251799813685248, 27, 6755399441055744]))) \<and>
   (66 \<in> set [46, 97, 98::nat] \<or>
    66 \<in> set alphanumerics \<and> (65 \<le> (66::nat) \<and> (66::nat) < 91))"
  using fuzz_text_output_characters [of 66 "[46, 97, 98]" "1/4" "1/4" 0 True
      "sample_rng [2251799813685248, 27, 6755399441055744]"]
  by (simp add: run_simps)

end
